theory Spec2Isabelle
  imports Complex_Main
begin

section \<open>Python strings\<close>

text \<open>
  A Python \<^verbatim>\<open>str\<close> is a sequence of Unicode code points, and \<^verbatim>\<open>len\<close> counts code
  points.  A code point is a natural number here, a string a list of them; \<open>str\<close>
  turns an ASCII literal into such a list.
\<close>

type_synonym pychar = nat
type_synonym pystr = "pychar list"

definition ord :: "char \<Rightarrow> pychar" where
  "ord c = of_char c"

definition str :: "string \<Rightarrow> pystr" where
  "str s = map ord s"

text \<open>
  Two things the program takes from the Python runtime depend on the Unicode character
  database, which is no part of the repository: which non-ASCII code points the regular
  expression \<^verbatim>\<open>\w\<close> matches (the alphanumeric ones), and what \<^verbatim>\<open>str.lower\<close> returns for
  a string that holds a non-ASCII code point (the result may even differ in length).
  Both are parameters of the model.  On ASCII the behaviour is fixed below.
\<close>

record unicode =
  uni_isalnum :: "pychar \<Rightarrow> bool"
  uni_lower :: "pystr \<Rightarrow> pystr"

text \<open>A value for the parameters, used where a concrete ASCII input is evaluated.\<close>

definition ascii_only :: unicode where
  "ascii_only = \<lparr>uni_isalnum = (\<lambda>c. False), uni_lower = (\<lambda>s. s)\<rparr>"

definition is_ascii :: "pychar \<Rightarrow> bool" where
  "is_ascii c = (c < 128)"

text \<open>The character classes \<^verbatim>\<open>[a-z]\<close>, \<^verbatim>\<open>[A-Z]\<close>, \<^verbatim>\<open>[0-9]\<close> and \<^verbatim>\<open>[^\w]\<close>.\<close>

definition cls_az :: "pychar \<Rightarrow> bool" where
  "cls_az c = (ord CHR ''a'' \<le> c \<and> c \<le> ord CHR ''z'')"

definition cls_AZ :: "pychar \<Rightarrow> bool" where
  "cls_AZ c = (ord CHR ''A'' \<le> c \<and> c \<le> ord CHR ''Z'')"

definition cls_09 :: "pychar \<Rightarrow> bool" where
  "cls_09 c = (ord CHR ''0'' \<le> c \<and> c \<le> ord CHR ''9'')"

definition word_char :: "unicode \<Rightarrow> pychar \<Rightarrow> bool" where
  "word_char u c =
     (if is_ascii c then cls_az c \<or> cls_AZ c \<or> cls_09 c \<or> c = ord CHR ''_''
      else uni_isalnum u c)"

definition cls_nonword :: "unicode \<Rightarrow> pychar \<Rightarrow> bool" where
  "cls_nonword u c = (\<not> word_char u c)"

text \<open>\<^verbatim>\<open>re.search\<close> of a one-character class: some character of the string is in it.\<close>

definition re_search_cls :: "(pychar \<Rightarrow> bool) \<Rightarrow> pystr \<Rightarrow> bool" where
  "re_search_cls P pw = list_ex P pw"

text \<open>\<^verbatim>\<open>str.lower\<close>: on an ASCII string, A to Z become a to z.\<close>

definition ascii_lower :: "pychar \<Rightarrow> pychar" where
  "ascii_lower c = (if cls_AZ c then c + 32 else c)"

definition py_lower :: "unicode \<Rightarrow> pystr \<Rightarrow> pystr" where
  "py_lower u s = (if list_all is_ascii s then map ascii_lower s else uni_lower u s)"

text \<open>The substring test \<^verbatim>\<open>p in s\<close>, and a slice \<^verbatim>\<open>s[i:j]\<close> with \<open>0 \<le> i \<le> j\<close>.\<close>

fun startswith :: "pystr \<Rightarrow> pystr \<Rightarrow> bool" where
  "startswith s [] = True"
| "startswith [] (p # ps) = False"
| "startswith (x # xs) (p # ps) = (x = p \<and> startswith xs ps)"

fun str_in :: "pystr \<Rightarrow> pystr \<Rightarrow> bool" where
  "str_in p [] = (p = [])"
| "str_in p (x # xs) = (startswith (x # xs) p \<or> str_in p xs)"

definition slice :: "pystr \<Rightarrow> nat \<Rightarrow> nat \<Rightarrow> pystr" where
  "slice s i j = take (j - i) (drop i s)"

text \<open>
  \<^verbatim>\<open>re.search\<close> of an alternation of literals \<^verbatim>\<open>(?:p1|p2|...)\<close>: one of them is a
  substring.
\<close>

definition re_search_alt :: "pystr list \<Rightarrow> pystr \<Rightarrow> bool" where
  "re_search_alt ps s = list_ex (\<lambda>p. str_in p s) ps"

text \<open>
  \<^verbatim>\<open>re.search(r"(.)\1{2,}", pw)\<close>: a character that the dot matches, followed by itself
  at least twice.  Without the DOTALL flag the dot matches no newline.
\<close>

fun re_search_repeat :: "pystr \<Rightarrow> bool" where
  "re_search_repeat (a # b # c # rest) =
     ((a \<noteq> 10 \<and> a = b \<and> b = c) \<or> re_search_repeat (b # c # rest))"
| "re_search_repeat s = False"

section \<open>Numbers of the Python runtime\<close>

text \<open>
  Python's \<^verbatim>\<open>int\<close> is \<open>int\<close>.  A \<^verbatim>\<open>float\<close> is idealised as a real number:
  \<^verbatim>\<open>math.log2\<close> is the exact logarithm, the product is exact, and \<^verbatim>\<open>round(x, 1)\<close>
  rounds the exact value to the nearest tenth, a tie to the even one.  \<^verbatim>\<open>math.log2\<close>
  raises ValueError on an argument that is not positive.  The theorems on the score
  hold for whatever number the entropy is; only the theorem on the value of the entropy
  rests on the idealisation, and it bounds the distance to the next rounding boundary.
\<close>

datatype py_error = ValueError

definition math_log2 :: "int \<Rightarrow> py_error + real" where
  "math_log2 x = (if x \<le> 0 then Inl ValueError else Inr (log 2 (real_of_int x)))"

definition py_round1 :: "real \<Rightarrow> real" where
  "py_round1 x =
     (let y = x * 10; f = \<lfloor>y\<rfloor>; d = y - of_int f
      in of_int (if d < 1 / 2 then f
                 else if 1 / 2 < d then f + 1
                 else if even f then f else f + 1) / 10)"

section \<open>The blacklist\<close>

definition COMMON :: "pystr set" where
  "COMMON = set (map str
     [''password'', ''123456'', ''123456789'', ''12345'', ''qwerty'', ''abc123'', ''111111'',
      ''123123'', ''letmein'', ''admin'', ''welcome'', ''iloveyou'', ''monkey'', ''dragon'',
      ''football'', ''baseball'', ''qwertyuiop'', ''1234'', ''1q2w3e4r'', ''passw0rd'',
      ''password1'', ''000000''])"

section \<open>charset\_size and shannon\_entropy\_bits\<close>

definition charset_size :: "unicode \<Rightarrow> pystr \<Rightarrow> int" where
  "charset_size u pw =
     (let size = 0;
          size = (if re_search_cls cls_az pw then size + 26 else size);
          size = (if re_search_cls cls_AZ pw then size + 26 else size);
          size = (if re_search_cls cls_09 pw then size + 10 else size);
          size = (if re_search_cls (cls_nonword u) pw then size + 33 else size)
      in if size \<noteq> 0 then size else 1)"

definition shannon_entropy_bits :: "unicode \<Rightarrow> pystr \<Rightarrow> py_error + real" where
  "shannon_entropy_bits u pw =
     (case math_log2 (charset_size u pw) of
        Inl e \<Rightarrow> Inl e
      | Inr l \<Rightarrow> Inr (real (length pw) * l))"

section \<open>repeating\_or\_sequences\_penalty\<close>

text \<open>
  The inner loop over the start indices of one keyboard row: 1 at the first slice of
  four that occurs in the lowercased password (where the loop breaks), 0 when none does.
\<close>

fun scan_row :: "pystr \<Rightarrow> nat list \<Rightarrow> pystr \<Rightarrow> int" where
  "scan_row row [] low = 0"
| "scan_row row (i # is) low =
     (if str_in (slice row i (i + 4)) low then 1 else scan_row row is low)"

text \<open>The outer loop over the rows, with the running penalty.\<close>

fun scan_rows :: "pystr list \<Rightarrow> pystr \<Rightarrow> int \<Rightarrow> int" where
  "scan_rows [] low penalty = penalty"
| "scan_rows (row # rows) low penalty =
     scan_rows rows low (penalty + scan_row row [0 ..< length row - 3] low)"

definition kb_rows :: "pystr list" where
  "kb_rows = map str [''qwertyuiop'', ''asdfghjkl'', ''zxcvbnm'']"

definition repeating_or_sequences_penalty :: "unicode \<Rightarrow> pystr \<Rightarrow> int" where
  "repeating_or_sequences_penalty u pw =
     (let penalty = 0;
          penalty = (if re_search_repeat pw then penalty + 1 else penalty);
          penalty = (if re_search_alt
                          (map str [''0123'', ''1234'', ''2345'', ''3456'', ''4567'', ''5678'', ''6789''])
                          pw
                     then penalty + 1 else penalty);
          penalty = (if re_search_alt
                          (map str [''abcd'', ''bcde'', ''cdef'', ''defg'', ''qwer'', ''asdf'', ''zxcv''])
                          (py_lower u pw)
                     then penalty + 1 else penalty)
      in scan_rows kb_rows (py_lower u pw) penalty)"

section \<open>score\_password\<close>

text \<open>The if-chain that names the clamped score.\<close>

definition label_of :: "int \<Rightarrow> pystr" where
  "label_of score =
     (if score \<ge> 9 then str ''Excellent''
      else if score \<ge> 7 then str ''Strong''
      else if score \<ge> 5 then str ''Moderate''
      else if score \<ge> 3 then str ''Weak''
      else str ''Very Weak'')"

text \<open>
  The returned dict.  The two early returns build it without the keys
  \<^verbatim>\<open>entropy_bits\<close> and \<^verbatim>\<open>length\<close>: an absent key is \<open>None\<close>.
\<close>

record verdict =
  score :: int
  label :: pystr
  reasons :: "pystr list"
  entropy_bits :: "real option"
  length_v :: "int option"

text \<open>The number of the four patterns that \<^verbatim>\<open>re.search\<close> finds in the password.\<close>

definition cats_of :: "unicode \<Rightarrow> pystr \<Rightarrow> int" where
  "cats_of u pw =
     sum_list (map (\<lambda>p. if re_search_cls p pw then 1 else 0)
                   [cls_az, cls_AZ, cls_09, cls_nonword u])"

text \<open>
  Steps 2 to 5 of the function: the running score and the reasons as they stand before
  the clamp, with the entropy and the length that the result reports.
\<close>

definition heuristics :: "unicode \<Rightarrow> pystr \<Rightarrow> py_error + (int \<times> pystr list \<times> real \<times> int)" where
  "heuristics u pw =
     (let reasons = [];
          score = 0;
          L = int (length pw);
          (score, reasons) =
            (if L \<ge> 16 then (score + 4, reasons)
             else if L \<ge> 12 then (score + 3, reasons)
             else if L \<ge> 10 then (score + 2, reasons)
             else if L \<ge> 8 then (score + 1, reasons)
             else (score, reasons @ [str ''Too short (< 8 characters).'']));
          cats = cats_of u pw;
          score = score + max 0 (cats - 1);
          reasons =
            (if cats \<le> 1
             then reasons @ [str ''Use a mix of lowercase, uppercase, digits, and symbols.'']
             else reasons)
      in case shannon_entropy_bits u pw of
           Inl e \<Rightarrow> Inl e
         | Inr bits \<Rightarrow>
            (let (score, reasons) =
                   (if bits \<ge> 80 then (score + 3, reasons)
                    else if bits \<ge> 60 then (score + 2, reasons)
                    else if bits \<ge> 40 then (score + 1, reasons)
                    else (score, reasons @
                            [str ''Low entropy '' @ [8212] @
                             str '' consider longer length and more variety.'']));
                 penalty = repeating_or_sequences_penalty u pw;
                 score = score - penalty;
                 reasons =
                   (if penalty \<noteq> 0
                    then reasons @ [str ''Avoid repeats or easy sequences (e.g., 1234, qwer, aaa).'']
                    else reasons)
             in Inr (score, reasons, bits, L)))"

definition score_password :: "unicode \<Rightarrow> pystr \<Rightarrow> py_error + verdict" where
  "score_password u pw =
     (if pw = [] then
        Inr \<lparr>score = 0, label = str ''Empty'', reasons = [str ''No password provided.''],
             entropy_bits = None, length_v = None\<rparr>
      else if py_lower u pw \<in> COMMON then
        Inr \<lparr>score = 1, label = str ''Very Weak'',
             reasons = [str ''Common password (easily guessed).''],
             entropy_bits = None, length_v = None\<rparr>
      else
        (case heuristics u pw of
           Inl e \<Rightarrow> Inl e
         | Inr h \<Rightarrow>
            (let (score, reasons, bits, L) = h;
                 score = max 0 (min 10 score);
                 label = label_of score
             in Inr \<lparr>score = score, label = label, reasons = reasons,
                     entropy_bits = Some (py_round1 bits), length_v = Some L\<rparr>)))"

section \<open>What the specification names\<close>

text \<open>
  The definitions of this section follow the words of the specification, not the code;
  the theorems below compare the two.
\<close>

text \<open>The sum of the fixed class sizes over the classes present.\<close>

definition class_sizes_sum :: "unicode \<Rightarrow> pystr \<Rightarrow> int" where
  "class_sizes_sum u pw =
     (if re_search_cls cls_az pw then 26 else 0) +
     (if re_search_cls cls_AZ pw then 26 else 0) +
     (if re_search_cls cls_09 pw then 10 else 0) +
     (if re_search_cls (cls_nonword u) pw then 33 else 0)"



text \<open>
  The detectors of the pattern penalty.  A detector adds one point when it fires, however
  often its pattern occurs.  The keyboard-row detector fires for a row when some four
  consecutive characters of the row occur in the lowercased password.
\<close>

definition detector_points :: "bool \<Rightarrow> int" where
  "detector_points hit = (if hit then 1 else 0)"

definition numeric_runs :: "pystr list" where
  "numeric_runs = map str [''0123'', ''1234'', ''2345'', ''3456'', ''4567'', ''5678'', ''6789'']"

definition alphabetic_runs :: "pystr list" where
  "alphabetic_runs = map str [''abcd'', ''bcde'', ''cdef'', ''defg'', ''qwer'', ''asdf'', ''zxcv'']"

definition row_hit :: "pystr \<Rightarrow> pystr \<Rightarrow> bool" where
  "row_hit row low = list_ex (\<lambda>i. str_in (slice row i (i + 4)) low) [0 ..< length row - 3]"

text \<open>The contributions to the score, and the clamp.\<close>

definition lengthTier :: "int \<Rightarrow> int" where
  "lengthTier L = (if L \<ge> 16 then 4 else if L \<ge> 12 then 3 else if L \<ge> 10 then 2
                   else if L \<ge> 8 then 1 else 0)"

definition class_count :: "unicode \<Rightarrow> pystr \<Rightarrow> int" where
  "class_count u pw =
     int (length (filter (\<lambda>cls. re_search_cls cls pw) [cls_az, cls_AZ, cls_09, cls_nonword u]))"

definition varietyPoints :: "int \<Rightarrow> int" where
  "varietyPoints count = max 0 (count - 1)"

definition entropyTier :: "real \<Rightarrow> int" where
  "entropyTier entropy = (if entropy \<ge> 80 then 3 else if entropy \<ge> 60 then 2
                          else if entropy \<ge> 40 then 1 else 0)"

definition clamp :: "int \<Rightarrow> int \<Rightarrow> int \<Rightarrow> int" where
  "clamp x lo hi = (if x < lo then lo else if hi < x then hi else x)"

section \<open>The model of the string operations is the intended one\<close>

lemma startswith_iff: "startswith s p \<longleftrightarrow> (\<exists>b. s = p @ b)"
  by (induction s p rule: startswith.induct) auto

lemma str_in_iff: "str_in p s \<longleftrightarrow> (\<exists>a b. s = a @ p @ b)"
proof (induction s)
  case Nil
  then show ?case by auto
next
  case (Cons x xs)
  have "(\<exists>a b. x # xs = a @ p @ b) \<longleftrightarrow> (\<exists>b. x # xs = p @ b) \<or> (\<exists>a b. xs = a @ p @ b)"
    by (auto simp add: Cons_eq_append_conv)
  with Cons show ?case by (simp add: startswith_iff)
qed

lemma re_search_repeat_iff:
  "re_search_repeat s \<longleftrightarrow> (\<exists>a c b. s = a @ [c, c, c] @ b \<and> c \<noteq> 10)"
proof (induction s rule: re_search_repeat.induct)
  case (1 x y z rest)
  have "(\<exists>a c b. x # y # z # rest = a @ [c, c, c] @ b \<and> c \<noteq> 10) \<longleftrightarrow>
        (x \<noteq> 10 \<and> x = y \<and> y = z) \<or> (\<exists>a c b. y # z # rest = a @ [c, c, c] @ b \<and> c \<noteq> 10)"
    by (auto simp add: Cons_eq_append_conv) (metis append_Nil append_Cons)+
  with 1 show ?case by simp
qed (auto simp add: Cons_eq_append_conv append_eq_Cons_conv)

lemmas cls_defs =
  cls_az_def cls_AZ_def cls_09_def cls_nonword_def word_char_def is_ascii_def ord_def

lemmas eval_defs =
  str_def ord_def cls_az_def cls_AZ_def cls_09_def cls_nonword_def word_char_def is_ascii_def
  re_search_cls_def re_search_alt_def py_lower_def ascii_lower_def slice_def kb_rows_def

section \<open>Properties of charset\_size\<close>

lemma charset_size_sum:
  "charset_size u pw = (if class_sizes_sum u pw = 0 then 1 else class_sizes_sum u pw)"
  by (simp add: charset_size_def class_sizes_sum_def Let_def)

lemma class_sizes_sum_nonneg: "0 \<le> class_sizes_sum u pw"
  by (simp add: class_sizes_sum_def)



lemma charset_size_pos: "1 \<le> charset_size u pw"
  using class_sizes_sum_nonneg [of u pw] by (simp add: charset_size_sum)



text \<open>
  C6: for every string, charset\_size returns the sum of the fixed class sizes (26 for a
  lowercase letter present, 26 for an uppercase one, 10 for a digit, 33 for a non-word
  symbol), and 1 when that sum is 0, so it never returns 0; on "abc" it returns 26, on
  "abc123" 36 and on "Abc123!" 95.
\<close>

theorem charset_size_spec:
  "charset_size u pw = (if class_sizes_sum u pw = 0 then 1 else class_sizes_sum u pw)
   \<and> charset_size u pw \<noteq> 0
   \<and> charset_size u (str ''abc'') = 26
   \<and> charset_size u (str ''abc123'') = 36
   \<and> charset_size u (str ''Abc123!'') = 95"
proof -
  have a: "charset_size u (str ''abc'') = 26"
    by (simp add: charset_size_def re_search_cls_def cls_defs str_def)
  have b: "charset_size u (str ''abc123'') = 36"
    by (simp add: charset_size_def re_search_cls_def cls_defs str_def)
  have c: "charset_size u (str ''Abc123!'') = 95"
    by (simp add: charset_size_def re_search_cls_def cls_defs str_def)
  from charset_size_pos [of u pw] have "charset_size u pw \<noteq> 0" by simp
  with a b c charset_size_sum [of u pw] show ?thesis by simp
qed

theorem charset_size_spec_witness:
  "charset_size ascii_only (str ''Pa55'') = 62 \<and> class_sizes_sum ascii_only (str ''Pa55'') = 62"
  using charset_size_spec [of ascii_only "str ''Pa55''"]
  by (simp add: class_sizes_sum_def re_search_cls_def cls_defs str_def)




section \<open>Properties of shannon\_entropy\_bits\<close>

text \<open>The logarithm is never taken of a number below 1, so ValueError is never raised.\<close>

lemma entropy_value:
  "shannon_entropy_bits u pw = Inr (real (length pw) * log 2 (real_of_int (charset_size u pw)))"
  using charset_size_pos [of u pw] by (simp add: shannon_entropy_bits_def math_log2_def)

lemma py_round1_nearest:
  assumes "of_int n - 1 / 2 < x * 10" and "x * 10 < of_int n + 1 / 2"
  shows "py_round1 x = of_int n / 10"
proof (cases "of_int n \<le> x * 10")
  case True
  with assms have f: "\<lfloor>x * 10\<rfloor> = n" by (intro floor_unique) auto
  show ?thesis using assms True by (simp add: py_round1_def Let_def f)
next
  case False
  with assms have f: "\<lfloor>x * 10\<rfloor> = n - 1" by (intro floor_unique) auto
  show ?thesis using assms False by (simp add: py_round1_def Let_def f)
qed

text \<open>Bounds on the two logarithms that the examples need, from powers of integers.\<close>

lemma log2_26_lower: "188 \<le> 40 * log 2 26"
proof -
  have a: "log 2 (2 ^ 188) \<le> log 2 (26 ^ 40 :: real)"
    by (subst log_le_cancel_iff) simp_all
  have b: "log 2 (2 ^ 188 :: real) = 188"
    using log_nat_power [of 2 2 188] by simp
  have c: "log 2 (26 ^ 40 :: real) = 40 * log 2 26"
    using log_nat_power [of 26 2 40] by simp
  from a b c show ?thesis by linarith
qed

lemma log2_26_upper: "160 * log 2 26 < 753"
proof -
  have a: "log 2 (26 ^ 160 :: real) < log 2 (2 ^ 753)"
    by (subst log_less_cancel_iff) simp_all
  have b: "log 2 (2 ^ 753 :: real) = 753"
    using log_nat_power [of 2 2 753] by simp
  have c: "log 2 (26 ^ 160 :: real) = 160 * log 2 26"
    using log_nat_power [of 26 2 160] by simp
  from a b c show ?thesis by linarith
qed

lemma log2_95_bounds: "5 \<le> log 2 95 \<and> 3 * log 2 95 < 20"
proof -
  have a: "log 2 (2 ^ 5) \<le> log 2 (95 :: real)"
    by (subst log_le_cancel_iff) simp_all
  have b: "log 2 (2 ^ 5 :: real) = 5"
    using log_nat_power [of 2 2 5] by simp
  have c: "log 2 (95 ^ 3 :: real) < log 2 (2 ^ 20)"
    by (subst log_less_cancel_iff) simp_all
  have d: "log 2 (2 ^ 20 :: real) = 20"
    using log_nat_power [of 2 2 20] by simp
  have e: "log 2 (95 ^ 3 :: real) = 3 * log 2 95"
    using log_nat_power [of 95 2 3] by simp
  from a b c d e show ?thesis by linarith
qed

lemma round_near_aaaa:
  assumes "\<bar>b - 4 * log 2 26\<bar> \<le> 1 / 50"
  shows "py_round1 b = 188 / 10"
proof -
  have "188 - 1 / 2 < b * 10" using assms log2_26_lower by linarith
  moreover have "b * 10 < 188 + 1 / 2" using assms log2_26_upper by linarith
  ultimately show ?thesis using py_round1_nearest [of 188 b] by simp
qed

section \<open>Properties of repeating\_or\_sequences\_penalty\<close>

lemma scan_row_hit:
  "scan_row row is low = detector_points (list_ex (\<lambda>i. str_in (slice row i (i + 4)) low) is)"
  by (induction "is") (simp_all add: detector_points_def)

lemma scan_rows_sum:
  "scan_rows rows low p = p + sum_list (map (\<lambda>row. detector_points (row_hit row low)) rows)"
  by (induction rows arbitrary: p) (simp_all add: scan_row_hit row_hit_def)

lemma penalty_sum:
  "repeating_or_sequences_penalty u pw =
     detector_points (re_search_repeat pw)
     + detector_points (re_search_alt numeric_runs pw)
     + detector_points (re_search_alt alphabetic_runs (py_lower u pw))
     + sum_list (map (\<lambda>row. detector_points (row_hit row (py_lower u pw))) kb_rows)"
  by (simp add: repeating_or_sequences_penalty_def Let_def scan_rows_sum detector_points_def
      numeric_runs_def alphabetic_runs_def)

lemma detector_points_range: "0 \<le> detector_points b \<and> detector_points b \<le> 1"
  by (simp add: detector_points_def)

lemma length_kb_rows: "length kb_rows = 3"
  by (simp add: kb_rows_def)

lemma kb_sum_range:
  "0 \<le> sum_list (map (\<lambda>row. detector_points (row_hit row low)) kb_rows)
   \<and> sum_list (map (\<lambda>row. detector_points (row_hit row low)) kb_rows) \<le> 3"
  by (simp add: kb_rows_def detector_points_def)

lemma penalty_range:
  "0 \<le> repeating_or_sequences_penalty u pw \<and> repeating_or_sequences_penalty u pw \<le> 6"
  using detector_points_range [of "re_search_repeat pw"]
    detector_points_range [of "re_search_alt numeric_runs pw"]
    detector_points_range [of "re_search_alt alphabetic_runs (py_lower u pw)"]
    kb_sum_range [of "py_lower u pw"]
  unfolding penalty_sum by linarith

section \<open>Properties of score\_password\<close>

lemma cats_of_count: "cats_of u pw = class_count u pw"
  by (simp add: cats_of_def class_count_def)

lemma class_count_range: "0 \<le> class_count u pw \<and> class_count u pw \<le> 4"
  by (simp add: class_count_def)

lemma heuristics_score:
  "shannon_entropy_bits u pw = Inr bits \<Longrightarrow>
   \<exists>rs. heuristics u pw =
     Inr (lengthTier (int (length pw)) + varietyPoints (class_count u pw) + entropyTier bits
          - repeating_or_sequences_penalty u pw, rs, bits, int (length pw))"
  by (simp add: heuristics_def Let_def cats_of_count lengthTier_def varietyPoints_def
      entropyTier_def)

lemma heuristics_total:
  "\<exists>rs. heuristics u pw =
     Inr (lengthTier (int (length pw)) + varietyPoints (class_count u pw)
          + entropyTier (real (length pw) * log 2 (real_of_int (charset_size u pw)))
          - repeating_or_sequences_penalty u pw, rs,
          real (length pw) * log 2 (real_of_int (charset_size u pw)), int (length pw))"
  using heuristics_score [OF entropy_value] .

lemma score_password_main:
  "pw \<noteq> [] \<Longrightarrow> py_lower u pw \<notin> COMMON \<Longrightarrow> heuristics u pw = Inr (s, rs, bits, L) \<Longrightarrow>
   score_password u pw =
     Inr \<lparr>score = max 0 (min 10 s), label = label_of (max 0 (min 10 s)), reasons = rs,
          entropy_bits = Some (py_round1 bits), length_v = Some L\<rparr>"
  by (simp add: score_password_def Let_def)

lemma tiers_range:
  "0 \<le> lengthTier L \<and> lengthTier L \<le> 4 \<and> 0 \<le> varietyPoints (class_count u pw)
   \<and> varietyPoints (class_count u pw) \<le> 3 \<and> 0 \<le> entropyTier e \<and> entropyTier e \<le> 3"
  using class_count_range [of u pw]
  by (simp add: lengthTier_def varietyPoints_def entropyTier_def)

lemma label_strings:
  "str ''Excellent'' \<noteq> str ''Strong''" "str ''Excellent'' \<noteq> str ''Moderate''"
  "str ''Excellent'' \<noteq> str ''Weak''" "str ''Excellent'' \<noteq> str ''Very Weak''"
  "str ''Strong'' \<noteq> str ''Moderate''" "str ''Strong'' \<noteq> str ''Weak''"
  "str ''Strong'' \<noteq> str ''Very Weak''" "str ''Moderate'' \<noteq> str ''Weak''"
  "str ''Moderate'' \<noteq> str ''Very Weak''" "str ''Weak'' \<noteq> str ''Very Weak''"
  by (simp_all add: str_def ord_def)

lemma lower_PASSWORD: "py_lower u (str ''PASSWORD'') = str ''password''"
  by (simp add: eval_defs)

lemma aaaa_not_common: "str ''aaaa'' \<noteq> [] \<and> py_lower u (str ''aaaa'') \<notin> COMMON"
  by (simp add: COMMON_def eval_defs)

lemma aaaa_entropy:
  "charset_size u (str ''aaaa'') = 26
   \<and> shannon_entropy_bits u (str ''aaaa'') = Inr (4 * log 2 26)"
proof -
  have cs: "charset_size u (str ''aaaa'') = 26"
    by (simp add: charset_size_def eval_defs)
  have "length (str ''aaaa'') = 4" by (simp add: str_def)
  with cs show ?thesis by (simp add: entropy_value)
qed

section \<open>Main theorems on the entropy, the penalty and the verdict\<close>

text \<open>
  C8: for every string, shannon\_entropy\_bits returns the length times the binary
  logarithm of charset\_size, without raising; it is 0 for the empty string; for "aaaa",
  whose charset\_size is 26, it is 4 times the logarithm of 26, which rounds to one
  decimal place as 18.8, the value of the field entropy\_bits of the verdict.  The
  rounded value is 18.8 for every number within 1/50 of the exact one as well.
\<close>

theorem entropy_is_length_times_log2:
  "shannon_entropy_bits u pw = Inr (real (length pw) * log 2 (real_of_int (charset_size u pw)))
   \<and> shannon_entropy_bits u (str '''') = Inr 0
   \<and> charset_size u (str ''aaaa'') = 26
   \<and> shannon_entropy_bits u (str ''aaaa'') = Inr (4 * log 2 26)
   \<and> py_round1 (4 * log 2 26) = 188 / 10
   \<and> (\<exists>v. score_password u (str ''aaaa'') = Inr v \<and> entropy_bits v = Some (188 / 10))
   \<and> (\<forall>b. \<bar>b - 4 * log 2 26\<bar> \<le> 1 / 50 \<longrightarrow> py_round1 b = 188 / 10)"
proof -
  have e0: "shannon_entropy_bits u (str '''') = Inr 0"
    by (simp add: entropy_value str_def)
  have r: "py_round1 (4 * log 2 26) = 188 / 10"
    using round_near_aaaa [of "4 * log 2 26"] by simp
  have e4: "shannon_entropy_bits u (str ''aaaa'') = Inr (4 * log 2 26)"
    using aaaa_entropy [of u] by simp
  obtain rs s where h:
    "heuristics u (str ''aaaa'') = Inr (s, rs, 4 * log 2 26, int (length (str ''aaaa'')))"
    using heuristics_score [OF e4] by blast
  have v: "\<exists>v. score_password u (str ''aaaa'') = Inr v \<and> entropy_bits v = Some (188 / 10)"
    using aaaa_not_common [of u] score_password_main [OF _ _ h] r by simp
  from e0 r v aaaa_entropy [of u] entropy_value [of u pw] round_near_aaaa
  show ?thesis by blast
qed

theorem entropy_is_length_times_log2_witness:
  "\<bar>1881 / 100 - 4 * log 2 26\<bar> \<le> 1 / 50 \<and> py_round1 (1881 / 100) = 188 / 10
   \<and> shannon_entropy_bits ascii_only (str ''abc'') = Inr (3 * log 2 26)"
proof -
  have a: "\<bar>1881 / 100 - 4 * log 2 26\<bar> \<le> 1 / 50"
    using log2_26_lower log2_26_upper by linarith
  have cs: "charset_size ascii_only (str ''abc'') = 26"
    by (simp add: charset_size_def eval_defs)
  from entropy_is_length_times_log2 [of ascii_only "str ''abc''"] a cs show ?thesis
    by (simp add: str_def)
qed

text \<open>
  C9, as the code has it: for every string the penalty is the sum of the points of the
  repeat detector, the ascending-numeric detector, the alphabetic-run detector and, for
  each of the three keyboard rows, the row's detector; each of them contributes 0 or 1,
  so the penalty is between 0 and 6 inclusive.
\<close>

theorem penalty_between_0_and_6:
  "repeating_or_sequences_penalty u pw =
       detector_points (re_search_repeat pw)
     + detector_points (re_search_alt numeric_runs pw)
     + detector_points (re_search_alt alphabetic_runs (py_lower u pw))
     + sum_list (map (\<lambda>row. detector_points (row_hit row (py_lower u pw))) kb_rows)
   \<and> length kb_rows = 3
   \<and> 0 \<le> detector_points hit \<and> detector_points hit \<le> 1
   \<and> 0 \<le> repeating_or_sequences_penalty u pw
   \<and> repeating_or_sequences_penalty u pw \<le> 6"
  using penalty_sum [of u pw] penalty_range [of u pw] detector_points_range [of hit]
    length_kb_rows
  by blast

theorem penalty_between_0_and_6_witness:
  "repeating_or_sequences_penalty ascii_only (str ''qwerty12'') = 2"
  using penalty_between_0_and_6 [of ascii_only "str ''qwerty12''" True]
  by (simp add: detector_points_def numeric_runs_def alphabetic_runs_def row_hit_def
      eval_defs upt_rec)

text \<open>
  The penalty can exceed 5.  In "aaa1234qwerasdfzxcv" the repeat "aaa", the numeric run
  "1234", the alphabetic run "qwer" and a slice of each of the three keyboard rows
  ("qwer", "asdf", "zxcv") occur, and the penalty is 6.
\<close>

theorem penalty_six_reached:
  "repeating_or_sequences_penalty ascii_only (str ''aaa1234qwerasdfzxcv'') = 6"
  by (simp add: repeating_or_sequences_penalty_def eval_defs upt_rec)

text \<open>
  C1: for every input string, score\_password returns a verdict, and its score is an
  integer from 0 to 10.
\<close>

theorem score_between_0_and_10:
  "\<exists>v. score_password u pw = Inr v \<and> 0 \<le> score v \<and> score v \<le> 10"
proof -
  obtain rs s b L where h: "heuristics u pw = Inr (s, rs, b, L)"
    using heuristics_total [of u pw] by blast
  show ?thesis
  proof (cases "pw = [] \<or> py_lower u pw \<in> COMMON")
    case True
    then show ?thesis by (auto simp add: score_password_def)
  next
    case False
    then show ?thesis using score_password_main [OF _ _ h] by simp
  qed
qed

text \<open>
  C2: for every non-empty password that is not blacklisted, the score of the verdict is
  the clamp to 0..10 of length tier plus variety points plus entropy tier minus pattern
  penalty, where the length tier is 4 from length 16, 3 from 12, 2 from 10, 1 from 8 and
  0 below, the variety points are max(0, count - 1) for the count of the four classes
  present, and the entropy tier is 3 from 80 bits, 2 from 60, 1 from 40 and 0 below.
\<close>

theorem score_is_clamped_sum:
  assumes "pw \<noteq> []" and "py_lower u pw \<notin> COMMON"
  shows "\<exists>v entropy. score_password u pw = Inr v \<and> shannon_entropy_bits u pw = Inr entropy
     \<and> score v = clamp (lengthTier (int (length pw)) + varietyPoints (class_count u pw)
                         + entropyTier entropy - repeating_or_sequences_penalty u pw) 0 10"
proof -
  obtain rs where h: "heuristics u pw =
     Inr (lengthTier (int (length pw)) + varietyPoints (class_count u pw)
          + entropyTier (real (length pw) * log 2 (real_of_int (charset_size u pw)))
          - repeating_or_sequences_penalty u pw, rs,
          real (length pw) * log 2 (real_of_int (charset_size u pw)), int (length pw))"
    using heuristics_total [of u pw] by blast
  show ?thesis
    using score_password_main [OF assms h] entropy_value [of u pw]
    by (simp add: clamp_def)
qed

theorem score_is_clamped_sum_witness:
  "str ''P@ssw0rd123!'' \<noteq> []
   \<and> py_lower ascii_only (str ''P@ssw0rd123!'') \<notin> COMMON
   \<and> (\<exists>v. score_password ascii_only (str ''P@ssw0rd123!'') = Inr v \<and> score v = 8)"
proof -
  let ?pw = "str ''P@ssw0rd123!''"
  have a: "?pw \<noteq> []" by (simp add: str_def)
  have b: "py_lower ascii_only ?pw \<notin> COMMON"
    by (simp add: COMMON_def eval_defs)
  have cs: "charset_size ascii_only ?pw = 95"
    by (simp add: charset_size_def eval_defs)
  have len: "length ?pw = 12" by (simp add: str_def)
  have e: "shannon_entropy_bits ascii_only ?pw = Inr (12 * log 2 95)"
    by (simp add: entropy_value cs len)
  have t: "entropyTier (12 * log 2 95) = 2"
    using log2_95_bounds by (simp add: entropyTier_def)
  have p: "repeating_or_sequences_penalty ascii_only ?pw = 0"
    by (simp add: repeating_or_sequences_penalty_def eval_defs upt_rec)
  have cc: "class_count ascii_only ?pw = 4"
    by (simp add: class_count_def eval_defs)
  from score_is_clamped_sum [OF a b] obtain v entropy where
    v: "score_password ascii_only ?pw = Inr v"
    and en: "shannon_entropy_bits ascii_only ?pw = Inr entropy"
    and sc: "score v = clamp (lengthTier (int (length ?pw))
                         + varietyPoints (class_count ascii_only ?pw)
                         + entropyTier entropy
                         - repeating_or_sequences_penalty ascii_only ?pw) 0 10"
    by blast
  from en e have "entropy = 12 * log 2 95" by simp
  with sc t p cc len have "score v = 8"
    by (simp add: lengthTier_def varietyPoints_def clamp_def)
  with a b v show ?thesis by blast
qed

text \<open>
  C3, as the code has it: for every non-empty password the label of the verdict is a
  function of its score alone, namely label\_of applied to the score, and label\_of is
  total and maps a score from 9 to "Excellent", otherwise from 7 to "Strong", otherwise
  from 5 to "Moderate", otherwise from 3 to "Weak", otherwise to "Very Weak"; so at the
  boundary values 0, 2, 3, 4, 5, 6, 7, 8, 9 and 10.  The verdict of the empty string is
  outside this mapping: its score is 0 and its label is "Empty".
\<close>

theorem label_is_function_of_score:
  assumes "pw \<noteq> []"
  shows "(\<exists>v. score_password u pw = Inr v \<and> label v = label_of (score v))
     \<and> (label_of s = str ''Excellent'' \<longleftrightarrow> 9 \<le> s)
     \<and> (label_of s = str ''Strong'' \<longleftrightarrow> 7 \<le> s \<and> s < 9)
     \<and> (label_of s = str ''Moderate'' \<longleftrightarrow> 5 \<le> s \<and> s < 7)
     \<and> (label_of s = str ''Weak'' \<longleftrightarrow> 3 \<le> s \<and> s < 5)
     \<and> (label_of s = str ''Very Weak'' \<longleftrightarrow> s < 3)
     \<and> label_of 0 = str ''Very Weak'' \<and> label_of 2 = str ''Very Weak''
     \<and> label_of 3 = str ''Weak'' \<and> label_of 4 = str ''Weak''
     \<and> label_of 5 = str ''Moderate'' \<and> label_of 6 = str ''Moderate''
     \<and> label_of 7 = str ''Strong'' \<and> label_of 8 = str ''Strong''
     \<and> label_of 9 = str ''Excellent'' \<and> label_of 10 = str ''Excellent''"
proof -
  obtain rs s' b L where h: "heuristics u pw = Inr (s', rs, b, L)"
    using heuristics_total [of u pw] by blast
  have 1: "\<exists>v. score_password u pw = Inr v \<and> label v = label_of (score v)"
  proof (cases "py_lower u pw \<in> COMMON")
    case True
    with assms show ?thesis by (simp add: score_password_def label_of_def)
  next
    case False
    with assms show ?thesis using score_password_main [OF _ _ h] by simp
  qed
  have 2: "(label_of s = str ''Excellent'' \<longleftrightarrow> 9 \<le> s)
     \<and> (label_of s = str ''Strong'' \<longleftrightarrow> 7 \<le> s \<and> s < 9)
     \<and> (label_of s = str ''Moderate'' \<longleftrightarrow> 5 \<le> s \<and> s < 7)
     \<and> (label_of s = str ''Weak'' \<longleftrightarrow> 3 \<le> s \<and> s < 5)
     \<and> (label_of s = str ''Very Weak'' \<longleftrightarrow> s < 3)"
    using label_strings label_strings [symmetric] by (simp add: label_of_def)
  have 3: "label_of 0 = str ''Very Weak'' \<and> label_of 2 = str ''Very Weak''
     \<and> label_of 3 = str ''Weak'' \<and> label_of 4 = str ''Weak''
     \<and> label_of 5 = str ''Moderate'' \<and> label_of 6 = str ''Moderate''
     \<and> label_of 7 = str ''Strong'' \<and> label_of 8 = str ''Strong''
     \<and> label_of 9 = str ''Excellent'' \<and> label_of 10 = str ''Excellent''"
    by (simp add: label_of_def)
  from 1 2 3 show ?thesis by blast
qed

theorem label_is_function_of_score_witness:
  "str ''aaaa'' \<noteq> []
   \<and> (\<exists>v. score_password ascii_only (str ''aaaa'') = Inr v \<and> label v = label_of (score v))
   \<and> label_of 7 = str ''Strong''"
proof -
  have a: "str ''aaaa'' \<noteq> []" by (simp add: str_def)
  from a label_is_function_of_score [OF a, of ascii_only 7] show ?thesis by blast
qed

text \<open>
  Over all verdicts the label is not a function of the score.  The empty string and
  "aaaa" both score 0; the first is labelled "Empty", the second "Very Weak", which is
  what the mapping gives for 0.
\<close>

theorem empty_label_not_from_score:
  "score_password ascii_only (str '''') =
     Inr \<lparr>score = 0, label = str ''Empty'', reasons = [str ''No password provided.''],
          entropy_bits = None, length_v = None\<rparr>
   \<and> label_of 0 = str ''Very Weak''
   \<and> str ''Empty'' \<noteq> str ''Very Weak''
   \<and> score_password ascii_only (str ''aaaa'') =
     Inr \<lparr>score = 0, label = str ''Very Weak'',
          reasons = [str ''Too short (< 8 characters).'',
                     str ''Use a mix of lowercase, uppercase, digits, and symbols.'',
                     str ''Low entropy '' @ [8212] @
                       str '' consider longer length and more variety.'',
                     str ''Avoid repeats or easy sequences (e.g., 1234, qwer, aaa).''],
          entropy_bits = Some (188 / 10), length_v = Some 4\<rparr>"
proof -
  let ?pw = "str ''aaaa''"
  have a: "?pw \<noteq> []" and b: "py_lower ascii_only ?pw \<notin> COMMON"
    using aaaa_not_common [of ascii_only] by simp_all
  have len: "length ?pw = 4" by (simp add: str_def)
  have e: "shannon_entropy_bits ascii_only ?pw = Inr (4 * log 2 26)"
    using aaaa_entropy [of ascii_only] by simp
  have t: "\<not> 40 \<le> 4 * log 2 26" "\<not> 60 \<le> 4 * log 2 26" "\<not> 80 \<le> 4 * log 2 26"
    using log2_26_upper by simp_all
  have p: "repeating_or_sequences_penalty ascii_only ?pw = 1"
    by (simp add: repeating_or_sequences_penalty_def eval_defs upt_rec)
  have cc: "cats_of ascii_only ?pw = 1"
    by (simp add: cats_of_def eval_defs)
  have r: "py_round1 (4 * log 2 26) = 188 / 10"
    using round_near_aaaa [of "4 * log 2 26"] by simp
  have h: "heuristics ascii_only ?pw =
     Inr (- 1, [str ''Too short (< 8 characters).'',
                str ''Use a mix of lowercase, uppercase, digits, and symbols.'',
                str ''Low entropy '' @ [8212] @
                  str '' consider longer length and more variety.'',
                str ''Avoid repeats or easy sequences (e.g., 1234, qwer, aaa).''],
          4 * log 2 26, 4)"
    by (simp add: heuristics_def Let_def e t p cc len)
  have v: "score_password ascii_only ?pw =
     Inr \<lparr>score = 0, label = str ''Very Weak'',
          reasons = [str ''Too short (< 8 characters).'',
                     str ''Use a mix of lowercase, uppercase, digits, and symbols.'',
                     str ''Low entropy '' @ [8212] @
                       str '' consider longer length and more variety.'',
                     str ''Avoid repeats or easy sequences (e.g., 1234, qwer, aaa).''],
          entropy_bits = Some (188 / 10), length_v = Some 4\<rparr>"
    using score_password_main [OF a b h] r by (simp add: label_of_def)
  have w: "score_password ascii_only (str '''') =
     Inr \<lparr>score = 0, label = str ''Empty'', reasons = [str ''No password provided.''],
          entropy_bits = None, length_v = None\<rparr>"
    by (simp add: score_password_def str_def)
  have l: "label_of 0 = str ''Very Weak''" by (simp add: label_of_def)
  have n: "str ''Empty'' \<noteq> str ''Very Weak''" by (simp add: str_def ord_def)
  from w l n v show ?thesis by blast
qed

text \<open>
  C4: for the empty string, score\_password returns exactly the verdict with score 0,
  label "Empty" and the one reason "No password provided.", without the fields
  entropy\_bits and length.
\<close>

theorem empty_password_verdict:
  "score_password u (str '''') =
     Inr \<lparr>score = 0, label = str ''Empty'', reasons = [str ''No password provided.''],
          entropy_bits = None, length_v = None\<rparr>"
  by (simp add: score_password_def str_def)

text \<open>
  C5: for every non-empty password whose lowercasing is in the blacklist, in any casing
  such as "PASSWORD", score\_password returns exactly the verdict with score 1, label
  "Very Weak" and the one reason "Common password (easily guessed).", without the fields
  entropy\_bits and length, whatever the length, variety, entropy and patterns of the
  password are.
\<close>

theorem blacklisted_password_verdict:
  assumes "pw \<noteq> []" and "py_lower u pw \<in> COMMON"
  shows "score_password u pw =
     Inr \<lparr>score = 1, label = str ''Very Weak'',
          reasons = [str ''Common password (easily guessed).''],
          entropy_bits = None, length_v = None\<rparr>"
  using assms by (simp add: score_password_def)

theorem blacklisted_password_verdict_witness:
  "str ''PASSWORD'' \<noteq> [] \<and> py_lower ascii_only (str ''PASSWORD'') \<in> COMMON
   \<and> score_password ascii_only (str ''PASSWORD'') =
     Inr \<lparr>score = 1, label = str ''Very Weak'',
          reasons = [str ''Common password (easily guessed).''],
          entropy_bits = None, length_v = None\<rparr>"
proof -
  have a: "str ''PASSWORD'' \<noteq> []" by (simp add: str_def)
  have b: "py_lower ascii_only (str ''PASSWORD'') \<in> COMMON"
    by (simp add: lower_PASSWORD COMMON_def)
  from a b blacklisted_password_verdict [OF a b] show ?thesis by simp
qed

text \<open>
  C10: for every non-empty password that is not blacklisted, the running score before
  the clamp is at most 10, so the upper bound of the clamp never binds, and the score of
  the verdict is the maximum of 0 and the running score.
\<close>

theorem running_score_at_most_10:
  assumes "pw \<noteq> []" and "py_lower u pw \<notin> COMMON"
  shows "\<exists>s rs bits L v. heuristics u pw = Inr (s, rs, bits, L) \<and> s \<le> 10
     \<and> min 10 s = s \<and> score_password u pw = Inr v \<and> score v = max 0 s"
proof -
  obtain rs where h: "heuristics u pw =
     Inr (lengthTier (int (length pw)) + varietyPoints (class_count u pw)
          + entropyTier (real (length pw) * log 2 (real_of_int (charset_size u pw)))
          - repeating_or_sequences_penalty u pw, rs,
          real (length pw) * log 2 (real_of_int (charset_size u pw)), int (length pw))"
    using heuristics_total [of u pw] by blast
  have "lengthTier (int (length pw)) + varietyPoints (class_count u pw)
          + entropyTier (real (length pw) * log 2 (real_of_int (charset_size u pw)))
          - repeating_or_sequences_penalty u pw \<le> 10"
    using tiers_range [of "int (length pw)" u pw
        "real (length pw) * log 2 (real_of_int (charset_size u pw))"]
      penalty_range [of u pw] by linarith
  then show ?thesis
    using score_password_main [OF assms h] h by simp
qed

theorem running_score_at_most_10_witness:
  "str ''aaaa'' \<noteq> []
   \<and> py_lower ascii_only (str ''aaaa'') \<notin> COMMON
   \<and> (\<exists>s rs bits L v. heuristics ascii_only (str ''aaaa'') = Inr (s, rs, bits, L) \<and> s = - 1
        \<and> score_password ascii_only (str ''aaaa'') = Inr v \<and> score v = 0)"
proof -
  let ?pw = "str ''aaaa''"
  have a: "?pw \<noteq> []" and b: "py_lower ascii_only ?pw \<notin> COMMON"
    using aaaa_not_common [of ascii_only] by simp_all
  have len: "length ?pw = 4" by (simp add: str_def)
  have e: "shannon_entropy_bits ascii_only ?pw = Inr (4 * log 2 26)"
    using aaaa_entropy [of ascii_only] by simp
  have t: "entropyTier (4 * log 2 26) = 0"
    using log2_26_upper by (simp add: entropyTier_def)
  have p: "repeating_or_sequences_penalty ascii_only ?pw = 1"
    by (simp add: repeating_or_sequences_penalty_def eval_defs upt_rec)
  have cc: "class_count ascii_only ?pw = 1"
    by (simp add: class_count_def eval_defs)
  have "\<exists>rs. heuristics ascii_only ?pw = Inr (- 1, rs, 4 * log 2 26, 4)"
    using heuristics_score [OF e] t p cc len
    by (simp add: lengthTier_def varietyPoints_def)
  then obtain rs where h: "heuristics ascii_only ?pw = Inr (- 1, rs, 4 * log 2 26, 4)"
    by blast
  from running_score_at_most_10 [OF a b] obtain s rs' bits L v where
    h': "heuristics ascii_only ?pw = Inr (s, rs', bits, L)"
    and v: "score_password ascii_only ?pw = Inr v" and sc: "score v = max 0 s"
    by blast
  from h h' have s: "s = - 1" by simp
  with sc have "score v = 0" by simp
  with a b h' v s show ?thesis by blast
qed

end
